theory Spec2Isabelle
  imports Complex_Main "HOL-Library.Multiset" "HOL-Library.Sublist"
begin

section \<open>SilentCut: the adaptive silence-threshold search\<close>

text \<open>
  A shallow embedding of \<^verbatim>\<open>silentcut/audio/processor.py\<close> (class \<^verbatim>\<open>AudioProcessor\<close>)
  and of the parallel preset search of
  \<^verbatim>\<open>silentcut/gui/controllers/desilencer_controller.py\<close>.

  The audio library (pydub), the file system and \<^verbatim>\<open>tempfile\<close> are external: they
  appear as fields of an environment record, each returning either a value or the
  message of the exception it raised. A field is a function: during one run a
  collaborator answers the same call in the same way. Logging is left out, but for the
  warning about the output folder.
\<close>

subsection \<open>Thresholds\<close>

text \<open>
  A threshold is a Python float (or an int of the preset list). A finite float is
  idealised as the rational it denotes, so arithmetic is exact, as it is for the floats
  of the size ratios and of the constants 0.5, 0.99, 0.7, 0.05, 1.01 and 0.9; the one
  non-finite value that the program can produce, \<^verbatim>\<open>float('-inf')\<close> (the \<^verbatim>\<open>dBFS\<close> of
  digital silence), is a value of its own.
\<close>

datatype dbfs = NegInf | Fin rat

text \<open>\<^verbatim>\<open>round(x, 1)\<close>: the closest multiple of 0.1, a tie going to the even multiple;
  an infinity rounds to itself.\<close>

definition py_round1 :: "rat \<Rightarrow> rat" where
  "py_round1 x =
     (let f = \<lfloor>x * 10\<rfloor>; d = x * 10 - of_int f
      in if d < 1 / 2 then of_int f / 10
         else if 1 / 2 < d then of_int (f + 1) / 10
         else if even f then of_int f / 10 else of_int (f + 1) / 10)"

fun round1 :: "dbfs \<Rightarrow> dbfs" where
  "round1 NegInf = NegInf"
| "round1 (Fin x) = Fin (py_round1 x)"

text \<open>\<^verbatim>\<open>current += 0.2\<close>\<close>

fun nudge :: "dbfs \<Rightarrow> dbfs" where
  "nudge NegInf = NegInf"
| "nudge (Fin x) = Fin (x + 1 / 5)"

text \<open>\<^verbatim>\<open>(a + b) / 2\<close>\<close>

fun midpoint :: "dbfs \<Rightarrow> dbfs \<Rightarrow> dbfs" where
  "midpoint (Fin a) (Fin b) = Fin ((a + b) / 2)"
| "midpoint NegInf b = NegInf"
| "midpoint a NegInf = NegInf"

text \<open>\<^verbatim>\<open>high - low < 1\<close>. With \<^verbatim>\<open>low = -inf\<close> the difference is \<^verbatim>\<open>+inf\<close>, with
  \<^verbatim>\<open>high = -inf\<close> alone it is \<^verbatim>\<open>-inf\<close>, and \<^verbatim>\<open>-inf - -inf\<close> is a NaN, which
  compares false.\<close>

fun range_small :: "dbfs \<Rightarrow> dbfs \<Rightarrow> bool" where
  "range_small (Fin h) (Fin l) = (h - l < 1)"
| "range_small NegInf (Fin l) = True"
| "range_small (Fin h) NegInf = False"
| "range_small NegInf NegInf = False"

subsection \<open>Module constants\<close>

definition MIN_THRESHOLD :: rat where "MIN_THRESHOLD = - 100"
definition MAX_THRESHOLD :: rat where "MAX_THRESHOLD = 0"
definition ADAPTIVE_THRESHOLD_OFFSET :: rat where "ADAPTIVE_THRESHOLD_OFFSET = 30"
definition MIN_SIZE_RATIO :: rat where "MIN_SIZE_RATIO = 1 / 2"
definition MAX_SIZE_RATIO :: rat where "MAX_SIZE_RATIO = 99 / 100"
definition MAX_SEARCH_ATTEMPTS :: nat where "MAX_SEARCH_ATTEMPTS = 40"

definition PRESET_THRESHOLDS :: "rat list" where
  "PRESET_THRESHOLDS =
     [- 90, - 80, - 70, - 60, - 50, - 45, - 40, - 35, - 30, - 25, - 20, - 15, - 10]"

subsection \<open>Exceptions and the environment\<close>

text \<open>
  An exception is the message of an instance of a subclass of \<^verbatim>\<open>Exception\<close>: that
  is what \<^verbatim>\<open>except Exception as e\<close> catches and \<^verbatim>\<open>str(e)\<close> renders. A computation
  that may raise has a sum type, \<open>Inl\<close> carrying the exception. What Python raises
  outside \<^verbatim>\<open>Exception\<close> (a keyboard interrupt, an exit of the interpreter) is not
  modelled.
\<close>

type_synonym exn = string

definition try_except :: "exn + 'a \<Rightarrow> (exn \<Rightarrow> exn + 'a) \<Rightarrow> exn + 'a" where
  "try_except body handler = (case body of Inl e \<Rightarrow> handler e | Inr v \<Rightarrow> Inr v)"

text \<open>
  The external collaborators of one \<^verbatim>\<open>AudioProcessor\<close>. An audio segment is the
  list of the chunks it concatenates, \<open>'c\<close> being the type of a chunk.
  \<^item> \<open>split_on_silence env m t\<close>:
    \<^verbatim>\<open>split_on_silence(self.audio, min_silence_len=m, silence_thresh=t, keep_silence=100)\<close>;
  \<^item> \<open>named_temporary_file env suffix\<close>: the name of the file that
    \<^verbatim>\<open>tempfile.NamedTemporaryFile(suffix=suffix, delete=False)\<close> creates;
  \<^item> \<open>export_wav env a p\<close>: \<^verbatim>\<open>a.export(p, format="wav")\<close> followed by
    \<^verbatim>\<open>os.path.getsize(p)\<close>, the size in bytes of the file written;
  \<^item> \<open>from_file env p\<close>: \<^verbatim>\<open>AudioSegment.from_file(p)\<close>, which loads the audio the
    other fields refer to, or raises;
  \<^item> \<open>getsize\<close>, \<open>isdir\<close>, \<open>path_split\<close>, \<open>path_splitext\<close>, \<open>path_join\<close>,
    \<open>path_basename\<close>: the functions of \<^verbatim>\<open>os.path\<close> of these names;
  \<^item> \<open>average_dBFS\<close>: \<^verbatim>\<open>self.audio.dBFS\<close>; \<open>segment_dBFS\<close>: \<^verbatim>\<open>segment.dBFS\<close> for each
    \<^verbatim>\<open>segment\<close> of \<^verbatim>\<open>self.audio[::1000]\<close>.
\<close>

record 'c env =
  split_on_silence :: "int \<Rightarrow> dbfs \<Rightarrow> exn + 'c list"
  named_temporary_file :: "string \<Rightarrow> exn + string"
  export_wav :: "'c list \<Rightarrow> string \<Rightarrow> exn + nat"
  from_file :: "string \<Rightarrow> exn + unit"
  getsize :: "string \<Rightarrow> exn + nat"
  isdir :: "string \<Rightarrow> bool"
  path_split :: "string \<Rightarrow> string \<times> string"
  path_splitext :: "string \<Rightarrow> string \<times> string"
  path_join :: "string \<Rightarrow> string \<Rightarrow> string"
  path_basename :: "string \<Rightarrow> string"
  average_dBFS :: dbfs
  segment_dBFS :: "dbfs list"

subsection \<open>The evaluator \<^verbatim>\<open>test_threshold\<close>\<close>

text \<open>
  The dictionary \<^verbatim>\<open>test_threshold\<close> returns has one of three shapes, told apart by its
  \<^verbatim>\<open>"status"\<close>: \<^verbatim>\<open>"success"\<close>, \<^verbatim>\<open>"no_chunks"\<close> or \<^verbatim>\<open>"error"\<close>.
\<close>

datatype 'c result =
    Success (threshold: dbfs) (size_bytes: nat) (ratio: rat) (chunks: nat) (audio: "'c list")
  | No_chunks (threshold: dbfs) (size_bytes: nat) (ratio: rat) (chunks: nat)
  | Error (threshold: dbfs) (error: exn)

text \<open>The scratch file of one test:
  \<^verbatim>\<open>with tempfile.NamedTemporaryFile(suffix=".wav", delete=False) as temp_file:\<close>
  \<^verbatim>\<open>temp_path = temp_file.name\<close>.\<close>

definition scratch_path :: "'c env \<Rightarrow> exn + string" where
  "scratch_path env = named_temporary_file env ''.wav''"

text \<open>The body of the \<^verbatim>\<open>try\<close> block. \<^verbatim>\<open>output_size / input_size\<close> raises
  \<^verbatim>\<open>ZeroDivisionError\<close> for an empty input file. The scratch file is unlinked inside a
  \<^verbatim>\<open>try\<close> of its own whose handler is \<^verbatim>\<open>pass\<close>.\<close>

definition test_threshold_body :: "'c env \<Rightarrow> int \<Rightarrow> nat \<Rightarrow> dbfs \<Rightarrow> exn + 'c result" where
  "test_threshold_body env min_silence_len input_size thr =
     (case split_on_silence env min_silence_len thr of
        Inl e \<Rightarrow> Inl e
      | Inr cs \<Rightarrow>
          if cs = [] then Inr (No_chunks thr 0 0 0)
          else
            (let output_audio = cs in
             case scratch_path env of
               Inl e \<Rightarrow> Inl e
             | Inr temp_path \<Rightarrow>
                 (case export_wav env output_audio temp_path of
                    Inl e \<Rightarrow> Inl e
                  | Inr output_size \<Rightarrow>
                      if input_size = 0 then Inl ''division by zero''
                      else Inr (Success thr output_size
                                  (of_nat output_size / of_nat input_size)
                                  (length cs) output_audio))))"

definition test_threshold :: "'c env \<Rightarrow> int \<Rightarrow> nat \<Rightarrow> dbfs \<Rightarrow> exn + 'c result" where
  "test_threshold env min_silence_len input_size thr =
     try_except (test_threshold_body env min_silence_len input_size thr)
       (\<lambda>e. Inr (Error thr e))"

subsection \<open>\<^verbatim>\<open>AudioProcessor.process_audio\<close>: the preset stage\<close>

text \<open>
  \<^verbatim>\<open>int(input_size * MIN_SIZE_RATIO)\<close> and \<^verbatim>\<open>int(input_size * MAX_SIZE_RATIO)\<close>: the
  product truncated toward zero, computed exactly.
\<close>

definition min_acceptable_size :: "nat \<Rightarrow> nat" where
  "min_acceptable_size input_size = nat \<lfloor>of_nat input_size * MIN_SIZE_RATIO\<rfloor>"

definition max_acceptable_size :: "nat \<Rightarrow> nat" where
  "max_acceptable_size input_size = nat \<lfloor>of_nat input_size * MAX_SIZE_RATIO\<rfloor>"

text \<open>
  The adaptive initial threshold. \<open>segment_dbfs\<close> lists \<^verbatim>\<open>segment.dBFS\<close> over
  \<^verbatim>\<open>self.audio[::1000]\<close>; the comprehension keeps the values above \<^verbatim>\<open>-inf\<close>.
\<close>

fun finite_values :: "dbfs list \<Rightarrow> rat list" where
  "finite_values [] = []"
| "finite_values (NegInf # xs) = finite_values xs"
| "finite_values (Fin x # xs) = x # finite_values xs"

fun minus_offset :: "dbfs \<Rightarrow> rat \<Rightarrow> dbfs" where
  "minus_offset NegInf d = NegInf"
| "minus_offset (Fin x) d = Fin (x - d)"

definition initial_threshold :: "dbfs \<Rightarrow> dbfs list \<Rightarrow> dbfs" where
  "initial_threshold average_dbfs segment_dbfs =
     (let segment_dbfs_values = finite_values segment_dbfs
      in if segment_dbfs_values \<noteq> [] then
           (let max_dbfs = Max (set segment_dbfs_values);
                min_dbfs = Min (set segment_dbfs_values);
                dynamic_range = max_dbfs - min_dbfs;
                t = min_dbfs + min (dynamic_range * (3 / 10)) ADAPTIVE_THRESHOLD_OFFSET
            in Fin (max MIN_THRESHOLD (min t (MAX_THRESHOLD - 20))))
         else minus_offset average_dbfs ADAPTIVE_THRESHOLD_OFFSET)"

text \<open>
  The loop over \<^verbatim>\<open>PRESET_THRESHOLDS\<close>: every preset is tested, the successes are
  kept in order.
\<close>

fun try_presets :: "'c env \<Rightarrow> int \<Rightarrow> nat \<Rightarrow> rat list \<Rightarrow> exn + 'c result list" where
  "try_presets env min_silence_len input_size [] = Inr []"
| "try_presets env min_silence_len input_size (preset # presets) =
     (case test_threshold env min_silence_len input_size (Fin preset) of
        Inl e \<Rightarrow> Inl e
      | Inr r \<Rightarrow>
          (case try_presets env min_silence_len input_size presets of
             Inl e \<Rightarrow> Inl e
           | Inr rs \<Rightarrow> Inr (if is_Success r then r # rs else rs)))"

definition in_band :: "nat \<Rightarrow> nat \<Rightarrow> nat \<Rightarrow> bool" where
  "in_band min_acceptable max_acceptable n \<longleftrightarrow> min_acceptable \<le> n \<and> n \<le> max_acceptable"

definition valid_presets :: "nat \<Rightarrow> nat \<Rightarrow> 'c result list \<Rightarrow> 'c result list" where
  "valid_presets min_acceptable max_acceptable preset_results =
     filter (\<lambda>r. in_band min_acceptable max_acceptable (size_bytes r)) preset_results"

text \<open>\<^verbatim>\<open>abs(r["ratio"] - 0.7)\<close>, the sort key of the sequential path. \<^verbatim>\<open>list.sort\<close> is
  stable, as \<^const>\<open>sort_key\<close> is.\<close>

definition dist07 :: "'c result \<Rightarrow> rat" where
  "dist07 r = \<bar>ratio r - 7 / 10\<bar>"

subsection \<open>The bisection stage\<close>

text \<open>The initial bracket, tightened from the preset results.\<close>

definition initial_range :: "nat \<Rightarrow> nat \<Rightarrow> 'c result list \<Rightarrow> dbfs \<times> dbfs" where
  "initial_range min_acceptable max_acceptable preset_results =
     (let low = Fin MIN_THRESHOLD; high = Fin MAX_THRESHOLD
      in if preset_results \<noteq> [] then
           (let larger_presets = filter (\<lambda>r. max_acceptable < size_bytes r) preset_results;
                high = (if larger_presets \<noteq> []
                        then threshold (hd (sort_key size_bytes larger_presets)) else high);
                smaller_presets = filter (\<lambda>r. size_bytes r < min_acceptable) preset_results;
                low = (if smaller_presets \<noteq> []
                       then threshold (hd (sort_key (\<lambda>r. - int (size_bytes r)) smaller_presets))
                       else low)
            in (low, high))
         else (low, high))"

text \<open>
  The variables of the loop. \<open>probed\<close> is not a variable of the program: it logs the
  argument of every call of \<^verbatim>\<open>test_threshold\<close> the loop makes, in order.
\<close>

record 'c search_state =
  attempts :: nat
  low :: dbfs
  high :: dbfs
  current :: dbfs
  tested_thresholds :: "dbfs \<rightharpoonup> 'c result"
  best_result :: "'c result option"
  best_threshold :: "dbfs option"
  best_audio :: "'c list option"
  probed :: "dbfs list"

definition initial_state :: "dbfs \<times> dbfs \<Rightarrow> dbfs \<Rightarrow> 'c search_state" where
  "initial_state bracket initial =
     \<lparr>attempts = 0, low = fst bracket, high = snd bracket, current = initial,
      tested_thresholds = Map.empty, best_result = None, best_threshold = None,
      best_audio = None, probed = []\<rparr>"

datatype flow = Next | Break

text \<open>\<^verbatim>\<open>low = current; current = (current + high) / 2\<close>\<close>

definition raise_low :: "'c search_state \<Rightarrow> 'c search_state" where
  "raise_low s = s\<lparr>low := current s, current := midpoint (current s) (high s)\<rparr>"

text \<open>\<^verbatim>\<open>high = current; current = (low + current) / 2\<close>\<close>

definition lower_high :: "'c search_state \<Rightarrow> 'c search_state" where
  "lower_high s = s\<lparr>high := current s, current := midpoint (low s) (current s)\<rparr>"

text \<open>The check that ends an iteration which tested a threshold.\<close>

definition range_check :: "'c search_state \<Rightarrow> flow \<times> 'c search_state" where
  "range_check s = (if range_small (high s) (low s) then Break else Next, s)"

text \<open>What the loop does with the result of a test at \<open>current_rounded\<close>.\<close>

definition handle_result ::
  "nat \<Rightarrow> nat \<Rightarrow> dbfs \<Rightarrow> 'c result \<Rightarrow> 'c search_state \<Rightarrow> flow \<times> 'c search_state" where
  "handle_result min_acceptable max_acceptable current_rounded r s =
     (if is_Success r then
        (let output_size = size_bytes r;
             better = (in_band min_acceptable max_acceptable output_size \<and>
                       (case best_result s of None \<Rightarrow> True | Some b \<Rightarrow> dist07 r < dist07 b));
             s1 = (if better
                   then s\<lparr>best_result := Some r, best_threshold := Some current_rounded,
                          best_audio := Some (audio r)\<rparr>
                   else s)
         in if better \<and> dist07 r < 1 / 20 then (Break, s1)
            else if max_acceptable < output_size then range_check (lower_high s1)
            else if output_size < min_acceptable then range_check (raise_low s1)
            else range_check s1)
      else range_check (raise_low s))"

text \<open>One iteration of \<^verbatim>\<open>while attempts < MAX_SEARCH_ATTEMPTS\<close>.\<close>

definition loop_body ::
  "'c env \<Rightarrow> int \<Rightarrow> nat \<Rightarrow> 'c search_state \<Rightarrow> exn + flow \<times> 'c search_state" where
  "loop_body env min_silence_len input_size s0 =
     (let s = s0\<lparr>attempts := attempts s0 + 1\<rparr>;
          current_rounded = round1 (current s)
      in if tested_thresholds s current_rounded \<noteq> None
         then Inr (Next, s\<lparr>current := nudge (current s)\<rparr>)
         else
           (case test_threshold env min_silence_len input_size current_rounded of
              Inl e \<Rightarrow> Inl e
            | Inr r \<Rightarrow>
                Inr (handle_result (min_acceptable_size input_size)
                       (max_acceptable_size input_size) current_rounded r
                       (s\<lparr>tested_thresholds := (tested_thresholds s)(current_rounded \<mapsto> r),
                          probed := probed s @ [current_rounded]\<rparr>))))"

lemma loop_body_attempts:
  "loop_body env m n s = Inr (fl, s') \<Longrightarrow> attempts s' = Suc (attempts s)"
  by (auto simp: loop_body_def handle_result_def range_check_def raise_low_def lower_high_def
      Let_def split: if_splits sum.splits)

function bisect :: "'c env \<Rightarrow> int \<Rightarrow> nat \<Rightarrow> 'c search_state \<Rightarrow> exn + 'c search_state" where
  "bisect env min_silence_len input_size s =
     (if attempts s < MAX_SEARCH_ATTEMPTS then
        (case loop_body env min_silence_len input_size s of
           Inl e \<Rightarrow> Inl e
         | Inr (Break, s') \<Rightarrow> Inr s'
         | Inr (Next, s') \<Rightarrow> bisect env min_silence_len input_size s')
      else Inr s)"
  by pat_completeness auto
termination
  by (relation "measure (\<lambda>(env, m, n, s). MAX_SEARCH_ATTEMPTS - attempts s)")
    (auto dest: loop_body_attempts)

text \<open>The number of iterations the loop performs from a state: the same recursion,
  counting the executions of the body.\<close>

function iterations :: "'c env \<Rightarrow> int \<Rightarrow> nat \<Rightarrow> 'c search_state \<Rightarrow> nat" where
  "iterations env min_silence_len input_size s =
     (if attempts s < MAX_SEARCH_ATTEMPTS then
        (case loop_body env min_silence_len input_size s of
           Inl e \<Rightarrow> 1
         | Inr (Break, s') \<Rightarrow> 1
         | Inr (Next, s') \<Rightarrow> 1 + iterations env min_silence_len input_size s')
      else 0)"
  by pat_completeness auto
termination
  by (relation "measure (\<lambda>(env, m, n, s). MAX_SEARCH_ATTEMPTS - attempts s)")
    (auto dest: loop_body_attempts)

subsection \<open>The search of \<^verbatim>\<open>process_audio\<close>\<close>

text \<open>
  The two branches of \<^verbatim>\<open>if valid_presets: ... else: ...\<close>: either a preset is taken
  and the loop is not entered, or the loop runs and leaves its variables.
\<close>

datatype 'c search_result = Preset_hit "'c result" | Bisected "'c search_state"

definition search :: "'c env \<Rightarrow> int \<Rightarrow> nat \<Rightarrow> exn + 'c search_result" where
  "search env min_silence_len input_size =
     (case try_presets env min_silence_len input_size PRESET_THRESHOLDS of
        Inl e \<Rightarrow> Inl e
      | Inr preset_results \<Rightarrow>
          (let valid = valid_presets (min_acceptable_size input_size)
                         (max_acceptable_size input_size) preset_results
           in if valid \<noteq> [] then Inr (Preset_hit (hd (sort_key dist07 valid)))
              else
                (case bisect env min_silence_len input_size
                        (initial_state
                           (initial_range (min_acceptable_size input_size)
                              (max_acceptable_size input_size) preset_results)
                           (initial_threshold (average_dBFS env) (segment_dBFS env))) of
                   Inl e \<Rightarrow> Inl e
                 | Inr s \<Rightarrow> Inr (Bisected s))))"

text \<open>\<^verbatim>\<open>best_threshold\<close> and \<^verbatim>\<open>best_audio\<close> after the search, when neither is
  \<^verbatim>\<open>None\<close>.\<close>

fun chosen :: "'c search_result \<Rightarrow> (dbfs \<times> 'c list) option" where
  "chosen (Preset_hit b) = Some (threshold b, audio b)"
| "chosen (Bisected s) =
     (case (best_threshold s, best_audio s) of
        (Some t, Some a) \<Rightarrow> Some (t, a)
      | _ \<Rightarrow> None)"

text \<open>The arguments of all calls of \<^verbatim>\<open>test_threshold\<close> of one search, in order: the
  presets, each of which \<^const>\<open>try_presets\<close> tests once, then the tests of the loop.\<close>

fun probe_log :: "'c search_result \<Rightarrow> dbfs list" where
  "probe_log (Preset_hit b) = map Fin PRESET_THRESHOLDS"
| "probe_log (Bisected s) = map Fin PRESET_THRESHOLDS @ probed s"

subsection \<open>Output path and final check\<close>

datatype log_record = Warning_invalid_output_folder string

text \<open>\<^verbatim>\<open>output_folder\<close> is \<^verbatim>\<open>None\<close> or a string; the empty string is false as a
  condition.\<close>

definition output_location :: "'c env \<Rightarrow> string \<Rightarrow> string option \<Rightarrow> string \<times> log_record list" where
  "output_location env input_file output_folder =
     (let (input_dir, input_filename) = path_split env input_file;
          (name, ext) = path_splitext env input_filename;
          output_filename = name @ ''-desilenced'' @ ext
      in case output_folder of
           None \<Rightarrow> (path_join env input_dir output_filename, [])
         | Some folder \<Rightarrow>
             if folder \<noteq> [] \<and> isdir env folder
             then (path_join env folder output_filename, [])
             else (path_join env input_dir output_filename,
                   if folder \<noteq> [] then [Warning_invalid_output_folder folder] else []))"

text \<open>
  The messages \<^verbatim>\<open>process_audio\<close> returns, by their format string and the values
  formatted into it:
  \<^item> \<open>Audio_not_loaded\<close>: the audio was not loaded;
  \<^item> \<open>Done_ideal path threshold input_size final_size\<close>: success, size in the ideal range;
  \<^item> \<open>Done_tolerated path threshold input_size final_size\<close>: success, without that remark;
  \<^item> \<open>Cannot_shrink basename actual_ratio\<close>: the result is not smaller than the input;
  \<^item> \<open>Retains_too_little actual_retention\<close>: the result keeps too little of the input;
  \<^item> \<open>No_threshold_found basename\<close>: the search found no threshold;
  \<^item> \<open>Processing_error e\<close>: the outer handler caught \<open>e\<close>.
\<close>

datatype message =
    Audio_not_loaded
  | Done_ideal string dbfs nat nat
  | Done_tolerated string dbfs nat nat
  | Cannot_shrink string rat
  | Retains_too_little rat
  | No_threshold_found string
  | Processing_error exn

text \<open>The \<^verbatim>\<open>if\<close>/\<^verbatim>\<open>elif\<close>/\<^verbatim>\<open>elif\<close> chain on the final size. It has no \<^verbatim>\<open>else\<close>: falling
  through it, the method would return \<^verbatim>\<open>None\<close>, here \<open>None\<close>.\<close>

definition final_check ::
  "string \<Rightarrow> string \<Rightarrow> dbfs \<Rightarrow> nat \<Rightarrow> nat \<Rightarrow> exn + (bool \<times> message) option" where
  "final_check output_path basename best_thr input_size final_size =
     (if input_size = 0 then Inl ''division by zero''
      else
        (let actual_ratio = (of_nat final_size / of_nat input_size :: rat);
             actual_retention = actual_ratio * 100
         in if min_acceptable_size input_size < final_size \<and> final_size < input_size
            then Inr (Some (True, Done_ideal output_path best_thr input_size final_size))
            else if input_size \<le> final_size
            then (if actual_ratio < 101 / 100
                  then Inr (Some (True, Done_tolerated output_path best_thr input_size final_size))
                  else Inr (Some (False, Cannot_shrink basename actual_ratio)))
            else if final_size \<le> min_acceptable_size input_size
            then (if MIN_SIZE_RATIO * (9 / 10) < actual_ratio
                  then Inr (Some (True, Done_tolerated output_path best_thr input_size final_size))
                  else Inr (Some (False, Retains_too_little actual_retention)))
            else Inr None))"

text \<open>The body of the outer \<^verbatim>\<open>try\<close>.\<close>

definition process_audio_body ::
  "'c env \<Rightarrow> string \<Rightarrow> int \<Rightarrow> string option \<Rightarrow> exn + (bool \<times> message) option" where
  "process_audio_body env input_file min_silence_len output_folder =
     (case getsize env input_file of
        Inl e \<Rightarrow> Inl e
      | Inr input_size \<Rightarrow>
          (let basename = path_basename env input_file;
               output_path = fst (output_location env input_file output_folder)
           in case search env min_silence_len input_size of
                Inl e \<Rightarrow> Inl e
              | Inr found \<Rightarrow>
                  (case chosen found of
                     Some (best_thr, best_aud) \<Rightarrow>
                       (case export_wav env best_aud output_path of
                          Inl e \<Rightarrow> Inl e
                        | Inr final_size \<Rightarrow>
                            final_check output_path basename best_thr input_size final_size)
                   | None \<Rightarrow> Inr (Some (False, No_threshold_found basename)))))"

text \<open>\<open>loaded\<close> is \<^verbatim>\<open>self.audio is not None\<close>.\<close>

definition process_audio ::
  "'c env \<Rightarrow> bool \<Rightarrow> string \<Rightarrow> int \<Rightarrow> string option \<Rightarrow> exn + (bool \<times> message) option" where
  "process_audio env loaded input_file min_silence_len output_folder =
     (if \<not> loaded then Inr (Some (False, Audio_not_loaded))
      else try_except (process_audio_body env input_file min_silence_len output_folder)
             (\<lambda>e. Inr (Some (False, Processing_error e))))"

subsection \<open>The parallel preset search\<close>

text \<open>
  \<^verbatim>\<open>test_threshold_task\<close> of \<^verbatim>\<open>desilencer_controller.py\<close>, run in a worker process
  on \<^verbatim>\<open>(input_file, threshold, min_silence_len, output_dir)\<close>. Its dictionary has the
  status \<^verbatim>\<open>"success"\<close>, \<^verbatim>\<open>"failed"\<close> (no chunk) or \<^verbatim>\<open>"error"\<close>.
\<close>

datatype task_result =
    Task_success (task_threshold: rat) (temp_path: string) (output_size: nat)
      (task_ratio: rat) (task_chunks: nat)
  | Task_failed (task_threshold: rat) (output_size: nat) (task_ratio: rat)
  | Task_error (task_threshold: rat) (task_message: exn) (output_size: nat) (task_ratio: rat)





text \<open>
  \<^verbatim>\<open>Worker.process_single_file_parallel\<close>, from the loop over \<^verbatim>\<open>as_completed\<close> to the
  choice of \<^verbatim>\<open>best_threshold\<close>. \<open>arrivals\<close> lists what \<^verbatim>\<open>future.result()\<close> gives for
  the futures in the order they complete (\<open>Inl\<close>: it raises); \<open>running k\<close> is the value
  of \<^verbatim>\<open>self.running\<close> read when \<open>k\<close> futures have been handled. The accumulator holds
  \<^verbatim>\<open>valid_results\<close> and \<^verbatim>\<open>temp_files\<close>; \<open>None\<close> is the return on cancellation.
\<close>

fun collect ::
  "(nat \<Rightarrow> bool) \<Rightarrow> nat \<Rightarrow> nat \<Rightarrow> nat \<Rightarrow> (exn + task_result) list \<Rightarrow>
   task_result list \<times> string list \<Rightarrow> (task_result list \<times> string list) option" where
  "collect running k min_acceptable max_acceptable [] acc = Some acc"
| "collect running k min_acceptable max_acceptable (future # futures) (valid_results, temp_files) =
     (if \<not> running k then None
      else
        (case future of
           Inl e \<Rightarrow>
             collect running (Suc k) min_acceptable max_acceptable futures
               (valid_results, temp_files)
         | Inr r \<Rightarrow>
             if is_Task_success r then
               collect running (Suc k) min_acceptable max_acceptable futures
                 (if in_band min_acceptable max_acceptable (output_size r)
                  then valid_results @ [r] else valid_results,
                  if temp_path r \<noteq> [] then temp_files @ [temp_path r] else temp_files)
             else
               collect running (Suc k) min_acceptable max_acceptable futures
                 (valid_results, temp_files)))"

text \<open>\<^verbatim>\<open>abs(r["ratio"] - target_ratio)\<close> with \<^verbatim>\<open>target_ratio = 0.75\<close>\<close>

definition dist075 :: "task_result \<Rightarrow> rat" where
  "dist075 r = \<bar>task_ratio r - 3 / 4\<bar>"

datatype selection = Cancelled | No_valid_result | Best task_result

definition select_best :: "(nat \<Rightarrow> bool) \<Rightarrow> nat \<Rightarrow> (exn + task_result) list \<Rightarrow> selection" where
  "select_best running input_size arrivals =
     (case collect running 0 (min_acceptable_size input_size) (max_acceptable_size input_size)
             arrivals ([], []) of
        None \<Rightarrow> Cancelled
      | Some (valid_results, temp_files) \<Rightarrow>
          if \<not> running (length arrivals) then Cancelled
          else if valid_results \<noteq> [] then Best (hd (sort_key dist075 valid_results))
          else No_valid_result)"


subsection \<open>Auxiliary definitions for the statements\<close>

text \<open>The dictionary a test returns, and the successes of the preset stage.\<close>

definition evaluate :: "'c env \<Rightarrow> int \<Rightarrow> nat \<Rightarrow> dbfs \<Rightarrow> 'c result" where
  "evaluate env min_silence_len input_size thr =
     (case test_threshold env min_silence_len input_size thr of
        Inr r \<Rightarrow> r
      | Inl e \<Rightarrow> Error thr e)"

definition preset_results :: "'c env \<Rightarrow> int \<Rightarrow> nat \<Rightarrow> 'c result list" where
  "preset_results env min_silence_len input_size =
     filter is_Success (map (\<lambda>p. evaluate env min_silence_len input_size (Fin p)) PRESET_THRESHOLDS)"

text \<open>The three ways a final size is accepted: strictly between the floor and the
  original size; not below the original but less than 1.01 times it; not above the
  floor but more than \<open>0.5 * 0.9\<close> times the original.\<close>

definition accepted :: "nat \<Rightarrow> nat \<Rightarrow> bool" where
  "accepted input_size final_size \<longleftrightarrow>
     min_acceptable_size input_size < final_size \<and> final_size < input_size \<or>
     input_size \<le> final_size \<and> (of_nat final_size / of_nat input_size :: rat) < 101 / 100 \<or>
     final_size \<le> min_acceptable_size input_size \<and>
       (1 / 2) * (9 / 10) < (of_nat final_size / of_nat input_size :: rat)"

text \<open>The loop after one execution of its body.\<close>

fun resume ::
  "'c env \<Rightarrow> int \<Rightarrow> nat \<Rightarrow> exn + flow \<times> 'c search_state \<Rightarrow> exn + 'c search_state" where
  "resume env min_silence_len input_size (Inl e) = Inl e"
| "resume env min_silence_len input_size (Inr (Break, s)) = Inr s"
| "resume env min_silence_len input_size (Inr (Next, s)) = bisect env min_silence_len input_size s"

text \<open>The state in which \<^const>\<open>search\<close> enters the loop, and the log of a whole search.\<close>

definition search_start :: "'c env \<Rightarrow> int \<Rightarrow> nat \<Rightarrow> 'c search_state" where
  "search_start env min_silence_len input_size =
     initial_state
       (initial_range (min_acceptable_size input_size) (max_acceptable_size input_size)
          (preset_results env min_silence_len input_size))
       (initial_threshold (average_dBFS env) (segment_dBFS env))"

definition search_log :: "'c env \<Rightarrow> int \<Rightarrow> nat \<Rightarrow> dbfs list" where
  "search_log env min_silence_len input_size =
     (case search env min_silence_len input_size of
        Inr found \<Rightarrow> probe_log found
      | Inl e \<Rightarrow> [])"

text \<open>A threshold that is a multiple of 0.1, or \<^verbatim>\<open>-inf\<close>.\<close>

fun quantized :: "dbfs \<Rightarrow> bool" where
  "quantized NegInf = True"
| "quantized (Fin x) = (of_int \<lfloor>x * 10\<rfloor> = x * 10)"

text \<open>The log of the loop is sound: no threshold twice, the thresholds logged are the
  keys of \<^verbatim>\<open>tested_thresholds\<close>, and each is quantized.\<close>

definition probes_ok :: "'c search_state \<Rightarrow> bool" where
  "probes_ok s \<longleftrightarrow>
     distinct (probed s) \<and> set (probed s) = dom (tested_thresholds s) \<and>
     list_all quantized (probed s)"

text \<open>The bracket an execution of the loop body leaves.\<close>

fun bracket_after :: "exn + flow \<times> 'c search_state \<Rightarrow> (dbfs \<times> dbfs) option" where
  "bracket_after (Inr (fl, s)) = Some (low s, high s)"
| "bracket_after (Inl e) = None"

text \<open>The results the loop over \<^verbatim>\<open>as_completed\<close> keeps in \<^verbatim>\<open>valid_results\<close> when the run
  is not cancelled, in arrival order; a run that is never cancelled.\<close>

definition valid_arrivals :: "nat \<Rightarrow> nat \<Rightarrow> (exn + task_result) list \<Rightarrow> task_result list" where
  "valid_arrivals min_acceptable max_acceptable arrivals =
     map projr
       (filter (\<lambda>x. \<not> isl x \<and> is_Task_success (projr x) \<and>
                     in_band min_acceptable max_acceptable (output_size (projr x))) arrivals)"

definition always_running :: "nat \<Rightarrow> bool" where
  "always_running k = True"

text \<open>Python's \<^verbatim>\<open>str\<close> on an \<^verbatim>\<open>int\<close>, and on a threshold that is one, as the presets of
  \<^verbatim>\<open>PRESET_THRESHOLDS\<close> are.\<close>

function str_nat :: "nat \<Rightarrow> string" where
  "str_nat n =
     (if n < 10 then [''0123456789'' ! n]
      else str_nat (n div 10) @ [''0123456789'' ! (n mod 10)])"
  by pat_completeness auto
termination
  by (relation "measure id") auto

definition str_int :: "int \<Rightarrow> string" where
  "str_int i = (if i < 0 then CHR ''-'' # str_nat (nat (- i)) else str_nat (nat i))"

definition str_threshold :: "rat \<Rightarrow> string" where
  "str_threshold x = str_int \<lfloor>x\<rfloor>"

subsection \<open>Example environments\<close>

text \<open>A POSIX instance of the path functions, for paths without a trailing slash.\<close>

definition posix_split :: "string \<Rightarrow> string \<times> string" where
  "posix_split p =
     (let tail = rev (takeWhile (\<lambda>c. c \<noteq> CHR ''/'') (rev p));
          head = rev (dropWhile (\<lambda>c. c \<noteq> CHR ''/'') (rev p));
          stripped = rev (dropWhile (\<lambda>c. c = CHR ''/'') (rev head))
      in (if stripped = [] then head else stripped, tail))"

definition posix_splitext :: "string \<Rightarrow> string \<times> string" where
  "posix_splitext f =
     (let ext = rev (takeWhile (\<lambda>c. c \<noteq> CHR ''.'') (rev f));
          root = rev (drop 1 (dropWhile (\<lambda>c. c \<noteq> CHR ''.'') (rev f)))
      in if CHR ''.'' \<in> set f \<and> dropWhile (\<lambda>c. c = CHR ''.'') root \<noteq> []
         then (root, CHR ''.'' # ext) else (f, []))"

definition posix_join :: "string \<Rightarrow> string \<Rightarrow> string" where
  "posix_join a b =
     (if b \<noteq> [] \<and> hd b = CHR ''/'' then b
      else if a = [] \<or> last a = CHR ''/'' then a @ b
      else a @ ''/'' @ b)"

text \<open>
  An input file of 1000 bytes whose split at threshold \<open>t\<close> has \<open>pieces t\<close> chunks,
  each exported as 100 bytes; \<open>loudness\<close> is the loudness of its one-second segments.
  The only existing directory is \<^verbatim>\<open>/out\<close>.
\<close>

definition example_env :: "(dbfs \<Rightarrow> nat) \<Rightarrow> dbfs list \<Rightarrow> nat env" where
  "example_env pieces loudness =
     \<lparr>split_on_silence = (\<lambda>m t. Inr (replicate (pieces t) 0)),
      named_temporary_file = (\<lambda>suffix. Inr (''/tmp/tmpkqzvbnwa'' @ suffix)),
      export_wav = (\<lambda>a p. Inr (100 * length a)),
      from_file = (\<lambda>p. Inr ()),
      getsize = (\<lambda>p. Inr 1000),
      isdir = (\<lambda>p. p = ''/out''),
      path_split = posix_split,
      path_splitext = posix_splitext,
      path_join = posix_join,
      path_basename = (\<lambda>p. snd (posix_split p)),
      average_dBFS = Fin (- 20),
      segment_dBFS = loudness\<rparr>"

text \<open>A loud tone without a pause: every threshold keeps all of it.\<close>

definition tone_env :: "nat env" where
  "tone_env = example_env (\<lambda>t. 10) [Fin (- 10)]"

text \<open>Speech over a noise floor: a threshold up to -50 dBFS removes nothing, a higher
  one removes too much.\<close>

fun step_pieces :: "dbfs \<Rightarrow> nat" where
  "step_pieces NegInf = 10"
| "step_pieces (Fin x) = (if x \<le> - 50 then 10 else 4)"

definition step_env :: "nat env" where
  "step_env = example_env step_pieces [Fin (- 60), Fin (- 30)]"

text \<open>A recording for which the presets -50 and -45 land in the band, at the ratios
  0.8 and 0.7.\<close>

fun band_pieces :: "dbfs \<Rightarrow> nat" where
  "band_pieces NegInf = 10"
| "band_pieces (Fin x) =
     (if x \<le> - 60 then 10 else if x \<le> - 50 then 8 else if x \<le> - 45 then 7 else 3)"

definition band_env :: "nat env" where
  "band_env = example_env band_pieces [Fin (- 60), Fin (- 30)]"

text \<open>Digital silence: no chunk at any threshold, no finite loudness.\<close>

definition silent_env :: "nat env" where
  "silent_env = (example_env (\<lambda>t. 0) [NegInf, NegInf])\<lparr>average_dBFS := NegInf\<rparr>"

text \<open>An environment in which the decoder fails.\<close>

definition broken_env :: "nat env" where
  "broken_env = (example_env (\<lambda>t. 1) [])\<lparr>
     split_on_silence := (\<lambda>m t. Inl ''decoder failed''),
     getsize := (\<lambda>p. Inl ''no such file'')\<rparr>"

text \<open>An environment whose disk is full: splitting works, writing does not.\<close>

definition full_disk_env :: "nat env" where
  "full_disk_env = (example_env (\<lambda>t. 1) [])\<lparr>export_wav := (\<lambda>a p. Inl ''disk full'')\<rparr>"

text \<open>An environment that cannot create a temporary file.\<close>

definition no_temp_env :: "nat env" where
  "no_temp_env = (example_env (\<lambda>t. 1) [])\<lparr>named_temporary_file := (\<lambda>s. Inl ''no usable temporary directory'')\<rparr>"

text \<open>An environment that can write below \<^verbatim>\<open>/tmp/\<close> only.\<close>

definition readonly_env :: "nat env" where
  "readonly_env = (example_env band_pieces [Fin (- 60), Fin (- 30)])\<lparr>
     export_wav := (\<lambda>a p. if take 5 p = ''/tmp/'' then Inr (100 * length a)
                           else Inl ''permission denied'')\<rparr>"


definition arrivals_b :: "(exn + task_result) list" where
  "arrivals_b =
     [Inr (Task_success (- 90) ''/tmp/silentcut_x/talk_thresh_-90_1700000000.37.temp.wav'' 1000 1 10),
      Inr (Task_success (- 50) ''/tmp/silentcut_x/talk_thresh_-50_1700000000.41.temp.wav'' 760 (19 / 25) 8),
      Inr (Task_failed (- 10) 0 0),
      Inr (Task_success (- 45) ''/tmp/silentcut_x/talk_thresh_-45_1700000000.52.temp.wav'' 700 (7 / 10) 7),
      Inl ''worker died'']"



section \<open>Properties\<close>

subsection \<open>Unfolding the definitions\<close>

declare bisect.simps [simp del] iterations.simps [simp del] str_nat.simps [simp del]

lemmas example_defs =
  example_env_def tone_env_def step_env_def band_env_def silent_env_def broken_env_def
  full_disk_env_def no_temp_env_def readonly_env_def posix_split_def posix_splitext_def posix_join_def

lemmas search_defs =
  loop_body_def handle_result_def range_check_def raise_low_def lower_high_def
  test_threshold_def test_threshold_body_def try_except_def scratch_path_def
  min_acceptable_size_def max_acceptable_size_def in_band_def dist07_def
  MIN_SIZE_RATIO_def MAX_SIZE_RATIO_def MIN_THRESHOLD_def MAX_THRESHOLD_def
  initial_state_def py_round1_def Let_def

lemma floor_rat_divide_numeral [simp]:
  "\<lfloor>(numeral a / numeral b :: rat)\<rfloor> = numeral a div numeral b"
  using floor_divide_of_int_eq [of "numeral a" "numeral b", where ?'a = rat] by simp

lemma floor_rat_minus_divide_numeral [simp]:
  "\<lfloor>- (numeral a / numeral b :: rat)\<rfloor> = - numeral a div numeral b"
  using floor_divide_of_int_eq [of "- numeral a" "numeral b", where ?'a = rat] by simp

lemma min_acceptable_size_eq: "min_acceptable_size n = n div 2"
proof -
  have "\<lfloor>(of_nat n :: rat) / of_nat 2\<rfloor> = int (n div 2)"
    by (rule floor_divide_of_nat_eq)
  then show ?thesis by (simp add: min_acceptable_size_def MIN_SIZE_RATIO_def)
qed

lemma max_acceptable_size_eq: "max_acceptable_size n = (n * 99) div 100"
proof -
  have "\<lfloor>(of_nat (n * 99) :: rat) / of_nat 100\<rfloor> = int ((n * 99) div 100)"
    by (rule floor_divide_of_nat_eq)
  then show ?thesis by (simp add: max_acceptable_size_def MAX_SIZE_RATIO_def)
qed

lemmas parallel_defs =
  select_best_def always_running_def in_band_def dist075_def valid_arrivals_def
  min_acceptable_size_eq max_acceptable_size_eq

lemma str_examples:
  "str_threshold (- 90) = ''-90'' \<and> str_threshold (- 45) = ''-45'' \<and> str_int 7 = ''7'' \<and>
   str_int 1205 = ''1205''"
  by (simp add: str_threshold_def str_int_def str_nat.simps)

subsection \<open>The evaluator returns, it never raises\<close>

lemma test_threshold_evaluate:
  "test_threshold env m n t = Inr (evaluate env m n t)"
  by (simp add: evaluate_def test_threshold_def try_except_def split: sum.splits)

lemma threshold_evaluate: "threshold (evaluate env m n t) = t"
  by (auto simp: evaluate_def test_threshold_def try_except_def test_threshold_body_def Let_def
      split: sum.splits)

lemma try_presets_eq:
  "try_presets env m n ps = Inr (filter is_Success (map (\<lambda>p. evaluate env m n (Fin p)) ps))"
  by (induction ps) (simp_all add: test_threshold_evaluate)

text \<open>
  C7. \<^verbatim>\<open>test_threshold\<close> returns a dictionary for the threshold it was given, whatever
  the collaborators do: an empty chunk list gives the status \<^verbatim>\<open>no_chunks\<close> with size 0
  and ratio 0, and an exception raised by the split, by the creation of the scratch
  file or by the export gives the status \<^verbatim>\<open>error\<close> with the message of the exception.
\<close>

theorem test_threshold_never_raises:
  "(\<exists>r. test_threshold env m n t = Inr r \<and> threshold r = t) \<and>
   (split_on_silence env m t = Inr [] \<longrightarrow>
      test_threshold env m n t = Inr (No_chunks t 0 0 0)) \<and>
   (\<forall>e. split_on_silence env m t = Inl e \<longrightarrow>
      test_threshold env m n t = Inr (Error t e)) \<and>
   (\<forall>cs e. split_on_silence env m t = Inr cs \<and> cs \<noteq> [] \<and>
      named_temporary_file env ''.wav'' = Inl e \<longrightarrow>
      test_threshold env m n t = Inr (Error t e)) \<and>
   (\<forall>cs p e. split_on_silence env m t = Inr cs \<and> cs \<noteq> [] \<and>
      named_temporary_file env ''.wav'' = Inr p \<and> export_wav env cs p = Inl e \<longrightarrow>
      test_threshold env m n t = Inr (Error t e))"
  by (auto simp: test_threshold_def test_threshold_body_def try_except_def scratch_path_def
      Let_def split: sum.splits)

text \<open>
  Four tests at the preset -90: of digital silence, with a failing decoder, without a
  temporary directory and with a full disk.
\<close>

theorem test_threshold_never_raises_witness:
  "test_threshold silent_env 1000 1000 (Fin (- 90)) = Inr (No_chunks (Fin (- 90)) 0 0 0) \<and>
   test_threshold broken_env 1000 1000 (Fin (- 90)) = Inr (Error (Fin (- 90)) ''decoder failed'') \<and>
   test_threshold no_temp_env 1000 1000 (Fin (- 90)) =
     Inr (Error (Fin (- 90)) ''no usable temporary directory'') \<and>
   test_threshold full_disk_env 1000 1000 (Fin (- 90)) = Inr (Error (Fin (- 90)) ''disk full'')"
proof -
  have "split_on_silence silent_env 1000 (Fin (- 90)) = Inr []"
    by (simp add: example_defs)
  with test_threshold_never_raises [of silent_env 1000 1000 "Fin (- 90)"]
  have 1: "test_threshold silent_env 1000 1000 (Fin (- 90)) = Inr (No_chunks (Fin (- 90)) 0 0 0)"
    by blast
  have "split_on_silence broken_env 1000 (Fin (- 90)) = Inl ''decoder failed''"
    by (simp add: example_defs)
  with test_threshold_never_raises [of broken_env 1000 1000 "Fin (- 90)"]
  have 2: "test_threshold broken_env 1000 1000 (Fin (- 90)) =
      Inr (Error (Fin (- 90)) ''decoder failed'')"
    by blast
  have "split_on_silence no_temp_env 1000 (Fin (- 90)) = Inr [0] \<and> [0::nat] \<noteq> [] \<and>
      named_temporary_file no_temp_env ''.wav'' = Inl ''no usable temporary directory''"
    by (simp add: example_defs)
  with test_threshold_never_raises [of no_temp_env 1000 1000 "Fin (- 90)"]
  have 3: "test_threshold no_temp_env 1000 1000 (Fin (- 90)) =
      Inr (Error (Fin (- 90)) ''no usable temporary directory'')"
    by blast
  have "split_on_silence full_disk_env 1000 (Fin (- 90)) = Inr [0] \<and> [0::nat] \<noteq> [] \<and>
      named_temporary_file full_disk_env ''.wav'' = Inr ''/tmp/tmpkqzvbnwa.wav'' \<and>
      export_wav full_disk_env [0] ''/tmp/tmpkqzvbnwa.wav'' = Inl ''disk full''"
    by (simp add: example_defs)
  with test_threshold_never_raises [of full_disk_env 1000 1000 "Fin (- 90)"]
  have 4: "test_threshold full_disk_env 1000 1000 (Fin (- 90)) =
      Inr (Error (Fin (- 90)) ''disk full'')"
    by blast
  from 1 2 3 4 show ?thesis by blast
qed

subsection \<open>Termination of the bisection loop\<close>

lemma loop_body_total: "\<exists>fl s'. loop_body env m n s = Inr (fl, s')"
  by (cases "handle_result (min_acceptable_size n) (max_acceptable_size n) (round1 (current s))
        (evaluate env m n (round1 (current s)))
        (s\<lparr>attempts := attempts s + 1,
           tested_thresholds := (tested_thresholds s)(round1 (current s) \<mapsto> evaluate env m n (round1 (current s))),
           probed := probed s @ [round1 (current s)]\<rparr>)")
     (simp add: loop_body_def Let_def test_threshold_evaluate)

lemma iterations_le: "iterations env m n s \<le> MAX_SEARCH_ATTEMPTS - attempts s"
proof (induction env m n s rule: iterations.induct)
  case (1 env m n s)
  show ?case
  proof (cases "attempts s < MAX_SEARCH_ATTEMPTS")
    case False
    then show ?thesis by (subst iterations.simps) simp
  next
    case True
    obtain fl s' where body: "loop_body env m n s = Inr (fl, s')"
      using loop_body_total by blast
    then have att: "attempts s' = Suc (attempts s)" by (rule loop_body_attempts)
    show ?thesis
    proof (cases fl)
      case Break
      with True body show ?thesis by (subst iterations.simps) simp
    next
      case Next
      with True body have "iterations env m n s = 1 + iterations env m n s'"
        by (subst iterations.simps) simp
      moreover from True body Next
      have "iterations env m n s' \<le> MAX_SEARCH_ATTEMPTS - attempts s'"
        by (intro "1.IH" [of "(fl, s')" fl s']) simp_all
      ultimately show ?thesis using True att by simp
    qed
  qed
qed

lemma bisect_iterations:
  "\<exists>s'. bisect env m n s = Inr s' \<and> attempts s' = attempts s + iterations env m n s"
proof (induction env m n s rule: bisect.induct)
  case (1 env m n s)
  show ?case
  proof (cases "attempts s < MAX_SEARCH_ATTEMPTS")
    case False
    then show ?thesis
      by (subst bisect.simps, subst iterations.simps) simp
  next
    case True
    obtain fl s' where body: "loop_body env m n s = Inr (fl, s')"
      using loop_body_total by blast
    then have att: "attempts s' = Suc (attempts s)" by (rule loop_body_attempts)
    show ?thesis
    proof (cases fl)
      case Break
      with True body att show ?thesis
        by (subst bisect.simps, subst iterations.simps) simp
    next
      case Next
      from True body Next
      have "\<exists>s''. bisect env m n s' = Inr s'' \<and>
              attempts s'' = attempts s' + iterations env m n s'"
        by (intro "1.IH" [of "(fl, s')" fl s']) simp_all
      with True body att Next show ?thesis
        by (subst bisect.simps, subst iterations.simps) simp
    qed
  qed
qed

lemma bisect_resume:
  "bisect env m n s =
     (if attempts s < MAX_SEARCH_ATTEMPTS then resume env m n (loop_body env m n s) else Inr s)"
  by (subst bisect.simps) (auto split: sum.splits flow.splits)

lemma handle_result_stop:
  "handle_result mn mx t r s = (fl, s') \<Longrightarrow> range_small (high s') (low s') \<Longrightarrow> fl = Break"
  by (auto simp: handle_result_def range_check_def Let_def split: if_splits)

text \<open>
  C1. From any state, and so from the initial one whatever the audio and the parameters,
  the loop performs at most \<open>MAX_SEARCH_ATTEMPTS - attempts\<close> iterations, 40 from the
  start, and returns its final state with \<open>attempts\<close> equal to the number of iterations
  performed: every iteration, a skipped one too, adds one to \<open>attempts\<close>. An iteration
  that tests a threshold and leaves \<open>high - low < 1\<close> ends the loop.
\<close>

theorem bisection_terminates:
  "iterations env m n s \<le> MAX_SEARCH_ATTEMPTS - attempts s \<and>
   iterations env m n (initial_state bracket t0) \<le> 40 \<and>
   (\<exists>s'. bisect env m n s = Inr s' \<and> attempts s' = attempts s + iterations env m n s) \<and>
   (\<forall>fl s'. loop_body env m n s = Inr (fl, s') \<longrightarrow> attempts s' = attempts s + 1) \<and>
   (\<forall>fl s'. loop_body env m n s = Inr (fl, s') \<and>
       tested_thresholds s (round1 (current s)) = None \<and>
       range_small (high s') (low s') \<longrightarrow> fl = Break)"
proof -
  have "iterations env m n (initial_state bracket t0) \<le> 40"
    using iterations_le [of env m n "initial_state bracket t0"]
    by (simp add: MAX_SEARCH_ATTEMPTS_def)
  moreover have "\<forall>fl s'. loop_body env m n s = Inr (fl, s') \<longrightarrow> attempts s' = attempts s + 1"
    by (auto dest: loop_body_attempts)
  moreover have "\<forall>fl s'. loop_body env m n s = Inr (fl, s') \<and>
       tested_thresholds s (round1 (current s)) = None \<and>
       range_small (high s') (low s') \<longrightarrow> fl = Break"
    by (auto simp: loop_body_def Let_def test_threshold_evaluate dest: handle_result_stop)
  ultimately show ?thesis
    using iterations_le bisect_iterations by blast
qed

text \<open>
  The first iteration for \<open>step_env\<close>, from the state in which its search enters the
  loop: the test at -51 overshoots, \<open>high\<close> becomes -51 against \<open>low = -45\<close>, and the loop
  ends after this one iteration.
\<close>

theorem bisection_terminates_witness:
  "\<exists>s'. loop_body step_env 1000 1000 (initial_state (Fin (- 45), Fin (- 90)) (Fin (- 51)))
           = Inr (Break, s') \<and>
        low s' = Fin (- 45) \<and> high s' = Fin (- 51) \<and> attempts s' = 1 \<and>
        iterations step_env 1000 1000 (initial_state (Fin (- 45), Fin (- 90)) (Fin (- 51))) \<le> 40"
proof -
  let ?s = "initial_state (Fin (- 45), Fin (- 90)) (Fin (- 51)) :: nat search_state"
  note T = bisection_terminates [of step_env 1000 1000 ?s "(Fin (- 45), Fin (- 90))" "Fin (- 51)"]
  obtain fl s' where body: "loop_body step_env 1000 1000 ?s = Inr (fl, s')"
    using loop_body_total by blast
  have fresh: "tested_thresholds ?s (round1 (current ?s)) = None"
    by (simp add: initial_state_def)
  have bounds: "low s' = Fin (- 45) \<and> high s' = Fin (- 51)"
    using body by (auto simp: search_defs example_defs split: if_splits)
  then have "range_small (high s') (low s')" by simp
  with T body fresh have "fl = Break" by blast
  moreover from T body have "attempts s' = 1" by (simp add: initial_state_def)
  moreover from T have "iterations step_env 1000 1000 ?s \<le> 40" by blast
  ultimately show ?thesis using body bounds by blast
qed

subsection \<open>The first element of a stable sort\<close>

lemma hd_sort_key_in: "xs \<noteq> [] \<Longrightarrow> hd (sort_key f xs) \<in> set xs"
proof -
  assume "xs \<noteq> []"
  then have "sort_key f xs \<noteq> []" by (metis length_sort length_0_conv)
  then have "hd (sort_key f xs) \<in> set (sort_key f xs)" by (rule hd_in_set)
  then show ?thesis by simp
qed



subsection \<open>The preset stage\<close>


lemma search_presets:
  "search env m n =
     (let valid = valid_presets (min_acceptable_size n) (max_acceptable_size n)
                    (preset_results env m n)
      in if valid \<noteq> [] then Inr (Preset_hit (hd (sort_key dist07 valid)))
         else
           (case bisect env m n
                   (initial_state
                      (initial_range (min_acceptable_size n) (max_acceptable_size n)
                         (preset_results env m n))
                      (initial_threshold (average_dBFS env) (segment_dBFS env))) of
              Inl e \<Rightarrow> Inl e
            | Inr s \<Rightarrow> Inr (Bisected s)))"
  unfolding search_def try_presets_eq preset_results_def by simp

lemma search_bisected:
  "valid_presets (min_acceptable_size n) (max_acceptable_size n) (preset_results env m n) = [] \<Longrightarrow>
   search env m n = map_sum id Bisected (bisect env m n (search_start env m n))"
  by (simp add: search_presets search_start_def split: sum.splits)

lemma band_presets:
  "preset_results band_env 1000 1000 =
     [Success (Fin (- 90)) 1000 1 10 (replicate 10 0),
      Success (Fin (- 80)) 1000 1 10 (replicate 10 0),
      Success (Fin (- 70)) 1000 1 10 (replicate 10 0),
      Success (Fin (- 60)) 1000 1 10 (replicate 10 0),
      Success (Fin (- 50)) 800 (4 / 5) 8 (replicate 8 0),
      Success (Fin (- 45)) 700 (7 / 10) 7 (replicate 7 0),
      Success (Fin (- 40)) 300 (3 / 10) 3 (replicate 3 0),
      Success (Fin (- 35)) 300 (3 / 10) 3 (replicate 3 0),
      Success (Fin (- 30)) 300 (3 / 10) 3 (replicate 3 0),
      Success (Fin (- 25)) 300 (3 / 10) 3 (replicate 3 0),
      Success (Fin (- 20)) 300 (3 / 10) 3 (replicate 3 0),
      Success (Fin (- 15)) 300 (3 / 10) 3 (replicate 3 0),
      Success (Fin (- 10)) 300 (3 / 10) 3 (replicate 3 0)]"
  by (simp add: preset_results_def evaluate_def PRESET_THRESHOLDS_def search_defs example_defs)

lemma band_search:
  "search band_env 1000 1000 = Inr (Preset_hit (Success (Fin (- 45)) 700 (7 / 10) 7 (replicate 7 0)))"
  unfolding search_def try_presets_eq preset_results_def [symmetric] band_presets
  by (simp add: valid_presets_def search_defs)



subsection \<open>Runs of the loop on the examples\<close>

lemma tone_presets:
  "preset_results tone_env 1000 1000 =
     map (\<lambda>p. Success (Fin p) 1000 1 10 (replicate 10 0)) PRESET_THRESHOLDS"
  by (simp add: preset_results_def evaluate_def PRESET_THRESHOLDS_def search_defs example_defs)

lemma tone_start:
  "search_start tone_env 1000 1000 = initial_state (Fin (- 100), Fin (- 90)) (Fin (- 20))"
  unfolding search_start_def tone_presets
  by (simp add: initial_range_def PRESET_THRESHOLDS_def initial_threshold_def
      ADAPTIVE_THRESHOLD_OFFSET_def example_defs search_defs)

lemma tone_valid:
  "valid_presets (min_acceptable_size 1000) (max_acceptable_size 1000)
     (preset_results tone_env 1000 1000) = []"
  unfolding tone_presets
  by (simp add: valid_presets_def PRESET_THRESHOLDS_def search_defs)

lemma tone_log:
  "search_log tone_env 1000 1000 =
     map Fin PRESET_THRESHOLDS @
     [Fin (- 20), Fin (- 60), Fin (- 80), Fin (- 90), Fin (- 95), Fin (- (195 / 2)),
      Fin (- (494 / 5)), Fin (- (497 / 5))]"
  unfolding search_log_def search_bisected [OF tone_valid] tone_start
  by (simp add: bisect_resume MAX_SEARCH_ATTEMPTS_def search_defs example_defs)

lemma tone_search: "\<exists>s'. search tone_env 1000 1000 = Inr (Bisected s')"
proof -
  obtain s' where "bisect tone_env 1000 1000 (search_start tone_env 1000 1000) = Inr s'"
    using bisect_iterations by blast
  then show ?thesis
    by (simp add: search_bisected [OF tone_valid])
qed

lemma step_presets:
  "preset_results step_env 1000 1000 =
     map (\<lambda>p. Success (Fin p) 1000 1 10 (replicate 10 0)) [- 90, - 80, - 70, - 60, - 50] @
     map (\<lambda>p. Success (Fin p) 400 (2 / 5) 4 (replicate 4 0))
       [- 45, - 40, - 35, - 30, - 25, - 20, - 15, - 10]"
  by (simp add: preset_results_def evaluate_def PRESET_THRESHOLDS_def search_defs example_defs)

lemma step_start:
  "search_start step_env 1000 1000 = initial_state (Fin (- 45), Fin (- 90)) (Fin (- 51))"
  unfolding search_start_def step_presets
  by (simp add: initial_range_def initial_threshold_def
      ADAPTIVE_THRESHOLD_OFFSET_def example_defs search_defs)

subsection \<open>The bracket\<close>

lemma preset_threshold_bounds:
  assumes "r \<in> set (preset_results env m n)"
  shows "\<exists>p. threshold r = Fin p \<and> MIN_THRESHOLD \<le> p \<and> p \<le> MAX_THRESHOLD"
proof -
  from assms obtain p where "p \<in> set PRESET_THRESHOLDS" and "r = evaluate env m n (Fin p)"
    by (auto simp: preset_results_def)
  then show ?thesis
    by (auto simp: threshold_evaluate PRESET_THRESHOLDS_def MIN_THRESHOLD_def MAX_THRESHOLD_def)
qed

lemma initial_range_high:
  "snd (initial_range mn mx rs) = Fin MAX_THRESHOLD \<or>
   (\<exists>r \<in> set rs. snd (initial_range mn mx rs) = threshold r \<and> mx < size_bytes r)"
proof (cases "filter (\<lambda>r. mx < size_bytes r) rs = []")
  case True
  then show ?thesis by (simp add: initial_range_def Let_def)
next
  case False
  then have "hd (sort_key size_bytes (filter (\<lambda>r. mx < size_bytes r) rs))
      \<in> set (filter (\<lambda>r. mx < size_bytes r) rs)"
    by (rule hd_sort_key_in)
  with False show ?thesis
    by (auto simp: initial_range_def Let_def)
qed

lemma initial_range_low:
  "fst (initial_range mn mx rs) = Fin MIN_THRESHOLD \<or>
   (\<exists>r \<in> set rs. fst (initial_range mn mx rs) = threshold r \<and> size_bytes r < mn)"
proof (cases "filter (\<lambda>r. size_bytes r < mn) rs = []")
  case True
  then show ?thesis by (simp add: initial_range_def Let_def)
next
  case False
  then have "hd (sort_key (\<lambda>r. - int (size_bytes r)) (filter (\<lambda>r. size_bytes r < mn) rs))
      \<in> set (filter (\<lambda>r. size_bytes r < mn) rs)"
    by (rule hd_sort_key_in)
  with False show ?thesis
    by (auto simp: initial_range_def Let_def)
qed

lemma handle_result_bracket:
  assumes "handle_result mn mx t r s = (fl, s')"
    and "low s = Fin l" and "current s = Fin c" and "high s = Fin h"
    and "l \<le> c" and "c \<le> h"
  shows "\<exists>l' h'. low s' = Fin l' \<and> high s' = Fin h' \<and> l \<le> l' \<and> l' \<le> h' \<and> h' \<le> h"
  using assms
  by (auto simp: handle_result_def range_check_def raise_low_def lower_high_def Let_def
      split: if_splits)

text \<open>
  C3 as the code has it. The tightening from the preset results keeps both bounds
  finite and inside the full bracket \<open>[MIN_THRESHOLD, MAX_THRESHOLD]\<close>: \<open>high\<close> is
  \<open>MAX_THRESHOLD\<close> or the threshold of a preset whose size is above the band, \<open>low\<close> is
  \<open>MIN_THRESHOLD\<close> or the threshold of a preset whose size is below the band. One
  iteration of the loop that starts with finite \<open>low \<le> current \<le> high\<close> leaves finite
  bounds with \<open>low \<le> low' \<le> high' \<le> high\<close>. Nothing is said of an iteration that
  starts with \<open>current\<close> outside the bracket.
\<close>

theorem bracket_narrows_around_current:
  "(\<exists>l h. initial_range (min_acceptable_size n) (max_acceptable_size n)
             (preset_results env m n) = (Fin l, Fin h) \<and>
      MIN_THRESHOLD \<le> l \<and> l \<le> MAX_THRESHOLD \<and> MIN_THRESHOLD \<le> h \<and> h \<le> MAX_THRESHOLD \<and>
      (h = MAX_THRESHOLD \<or>
       (\<exists>r \<in> set (preset_results env m n).
          threshold r = Fin h \<and> max_acceptable_size n < size_bytes r)) \<and>
      (l = MIN_THRESHOLD \<or>
       (\<exists>r \<in> set (preset_results env m n).
          threshold r = Fin l \<and> size_bytes r < min_acceptable_size n))) \<and>
   (\<forall>fl s' l c h.
      loop_body env m n s = Inr (fl, s') \<and>
      low s = Fin l \<and> current s = Fin c \<and> high s = Fin h \<and> l \<le> c \<and> c \<le> h \<longrightarrow>
      (\<exists>l' h'. low s' = Fin l' \<and> high s' = Fin h' \<and> l \<le> l' \<and> l' \<le> h' \<and> h' \<le> h))"
proof -
  let ?rs = "preset_results env m n"
  let ?ir = "initial_range (min_acceptable_size n) (max_acceptable_size n) ?rs"
  have bounds: "MIN_THRESHOLD \<le> MAX_THRESHOLD"
    by (simp add: MIN_THRESHOLD_def MAX_THRESHOLD_def)
  from initial_range_high [of _ _ ?rs] preset_threshold_bounds [of _ env m n] bounds
  obtain h where h: "snd ?ir = Fin h" "MIN_THRESHOLD \<le> h" "h \<le> MAX_THRESHOLD"
    "h = MAX_THRESHOLD \<or>
     (\<exists>r \<in> set ?rs. threshold r = Fin h \<and> max_acceptable_size n < size_bytes r)"
    by (metis order_refl)
  from initial_range_low [of _ _ ?rs] preset_threshold_bounds [of _ env m n] bounds
  obtain l where l: "fst ?ir = Fin l" "MIN_THRESHOLD \<le> l" "l \<le> MAX_THRESHOLD"
    "l = MIN_THRESHOLD \<or>
     (\<exists>r \<in> set ?rs. threshold r = Fin l \<and> size_bytes r < min_acceptable_size n)"
    by (metis order_refl)
  from h(1) l(1) have "?ir = (Fin l, Fin h)"
    by (simp add: prod_eq_iff)
  with h l have first: "\<exists>l h. ?ir = (Fin l, Fin h) \<and>
      MIN_THRESHOLD \<le> l \<and> l \<le> MAX_THRESHOLD \<and> MIN_THRESHOLD \<le> h \<and> h \<le> MAX_THRESHOLD \<and>
      (h = MAX_THRESHOLD \<or>
       (\<exists>r \<in> set ?rs. threshold r = Fin h \<and> max_acceptable_size n < size_bytes r)) \<and>
      (l = MIN_THRESHOLD \<or>
       (\<exists>r \<in> set ?rs. threshold r = Fin l \<and> size_bytes r < min_acceptable_size n))"
    by blast
  have second: "\<forall>fl s' l c h.
      loop_body env m n s = Inr (fl, s') \<and>
      low s = Fin l \<and> current s = Fin c \<and> high s = Fin h \<and> l \<le> c \<and> c \<le> h \<longrightarrow>
      (\<exists>l' h'. low s' = Fin l' \<and> high s' = Fin h' \<and> l \<le> l' \<and> l' \<le> h' \<and> h' \<le> h)"
  proof (intro allI impI, elim conjE)
    fix fl s' l c h
    assume body: "loop_body env m n s = Inr (fl, s')"
      and s: "low s = Fin l" "current s = Fin c" "high s = Fin h" "l \<le> c" "c \<le> h"
    show "\<exists>l' h'. low s' = Fin l' \<and> high s' = Fin h' \<and> l \<le> l' \<and> l' \<le> h' \<and> h' \<le> h"
    proof (cases "tested_thresholds s (round1 (current s)) = None")
      case False
      with body s show ?thesis
        by (auto simp: loop_body_def Let_def)
    next
      case True
      let ?s1 = "s\<lparr>attempts := attempts s + 1,
             tested_thresholds := (tested_thresholds s)
               (round1 (current s) \<mapsto> evaluate env m n (round1 (current s))),
             probed := probed s @ [round1 (current s)]\<rparr>"
      from True body have hr: "handle_result (min_acceptable_size n) (max_acceptable_size n)
          (round1 (current s)) (evaluate env m n (round1 (current s))) ?s1 = (fl, s')"
        by (simp add: loop_body_def Let_def test_threshold_evaluate)
      from s have "low ?s1 = Fin l" "current ?s1 = Fin c" "high ?s1 = Fin h"
        by simp_all
      from handle_result_bracket [OF hr this \<open>l \<le> c\<close> \<open>c \<le> h\<close>] show ?thesis .
    qed
  qed
  from first second show ?thesis by blast
qed

text \<open>
  A first test at -20 inside the full bracket, for \<open>tone_env\<close>.
\<close>

theorem bracket_narrows_around_current_witness:
  "\<exists>fl s' l' h'.
     loop_body tone_env 1000 1000 (initial_state (Fin (- 100), Fin 0) (Fin (- 20))) = Inr (fl, s') \<and>
     low s' = Fin l' \<and> high s' = Fin h' \<and> - 100 \<le> l' \<and> l' \<le> h' \<and> h' \<le> 0"
proof -
  let ?s = "initial_state (Fin (- 100), Fin 0) (Fin (- 20)) :: nat search_state"
  obtain fl s' where body: "loop_body tone_env 1000 1000 ?s = Inr (fl, s')"
    using loop_body_total by blast
  have start: "low ?s = Fin (- 100) \<and> current ?s = Fin (- 20) \<and> high ?s = Fin 0 \<and>
      (- 100 :: rat) \<le> - 20 \<and> (- 20 :: rat) \<le> 0"
    by (simp add: initial_state_def)
  note step = conjunct2 [OF bracket_narrows_around_current [where s = ?s and env = tone_env
        and m = 1000 and n = 1000]]
  from step body start
  have "\<exists>l' h'. low s' = Fin l' \<and> high s' = Fin h' \<and> - 100 \<le> l' \<and> l' \<le> h' \<and> h' \<le> 0"
    by blast
  with body show ?thesis by blast
qed

text \<open>
  The bracket is not ordered and does not only narrow. For \<open>step_env\<close>, whose output
  shrinks as the threshold rises, the presets put \<open>low\<close> at -45 and \<open>high\<close> at -90 when
  the loop is entered. For \<open>tone_env\<close> the loop is entered with the bracket [-100, -90]
  and the initial threshold -20; the first test overshoots and moves \<open>high\<close> up to -20.
\<close>

theorem bracket_counterexample:
  "low (search_start step_env 1000 1000) = Fin (- 45) \<and>
   high (search_start step_env 1000 1000) = Fin (- 90) \<and>
   low (search_start tone_env 1000 1000) = Fin (- 100) \<and>
   high (search_start tone_env 1000 1000) = Fin (- 90) \<and>
   bracket_after (loop_body tone_env 1000 1000 (search_start tone_env 1000 1000)) =
     Some (Fin (- 100), Fin (- 20))"
  unfolding step_start tone_start
  by (simp add: search_defs example_defs)

subsection \<open>No threshold is tested twice by the loop\<close>

lemma handle_result_keeps:
  "handle_result mn mx t r s = (fl, s') \<Longrightarrow>
   probed s' = probed s \<and> tested_thresholds s' = tested_thresholds s"
  by (auto simp: handle_result_def range_check_def raise_low_def lower_high_def Let_def
      split: if_splits)

lemma quantized_round1: "quantized (round1 t)"
proof (cases t)
  case NegInf
  then show ?thesis by simp
next
  case (Fin x)
  have "of_int \<lfloor>(of_int k / 10 :: rat) * 10\<rfloor> = (of_int k / 10 :: rat) * 10" for k :: int
    by simp
  then show ?thesis
    using Fin by (simp add: py_round1_def Let_def del: of_int_add)
qed

lemma loop_body_probes_ok:
  assumes "loop_body env m n s = Inr (fl, s')" and "probes_ok s"
  shows "probes_ok s'"
proof (cases "tested_thresholds s (round1 (current s)) = None")
  case False
  with assms show ?thesis
    by (auto simp: loop_body_def Let_def probes_ok_def)
next
  case True
  let ?t = "round1 (current s)"
  let ?s1 = "s\<lparr>attempts := attempts s + 1,
               tested_thresholds := (tested_thresholds s)(?t \<mapsto> evaluate env m n ?t),
               probed := probed s @ [?t]\<rparr>"
  from True assms(1)
  have "handle_result (min_acceptable_size n) (max_acceptable_size n) ?t
          (evaluate env m n ?t) ?s1 = (fl, s')"
    by (simp add: loop_body_def Let_def test_threshold_evaluate)
  then have keep: "probed s' = probed s @ [?t]"
      "tested_thresholds s' = (tested_thresholds s)(?t \<mapsto> evaluate env m n ?t)"
    by (auto dest: handle_result_keeps)
  from True assms(2) have "?t \<notin> set (probed s)"
    by (auto simp: probes_ok_def)
  with assms(2) show ?thesis
    unfolding probes_ok_def keep by (auto simp: quantized_round1)
qed

lemma bisect_probes_ok:
  "bisect env m n s = Inr s' \<Longrightarrow> probes_ok s \<Longrightarrow> probes_ok s'"
proof (induction env m n s rule: bisect.induct)
  case (1 env m n s)
  show ?case
  proof (cases "attempts s < MAX_SEARCH_ATTEMPTS")
    case False
    with "1.prems" show ?thesis by (simp add: bisect_resume)
  next
    case True
    obtain fl s1 where body: "loop_body env m n s = Inr (fl, s1)"
      using loop_body_total by blast
    from body "1.prems"(2) have ok: "probes_ok s1" by (rule loop_body_probes_ok)
    show ?thesis
    proof (cases fl)
      case Break
      with True body "1.prems"(1) ok show ?thesis by (simp add: bisect_resume)
    next
      case Next
      with True body "1.prems"(1) have "bisect env m n s1 = Inr s'"
        by (simp add: bisect_resume)
      with True body Next ok show ?thesis
        by (intro "1.IH" [of "(fl, s1)" fl s1]) simp_all
    qed
  qed
qed

lemma initial_state_probes_ok: "probes_ok (initial_state bracket t0)"
  by (simp add: probes_ok_def initial_state_def)

text \<open>
  C6 as the code has it. A search that enters the loop logs the thirteen presets, all
  different, and then the thresholds the loop tests: these are quantized, are the keys
  of \<^verbatim>\<open>tested_thresholds\<close> and are pairwise different. An iteration whose quantized
  threshold is a key of \<^verbatim>\<open>tested_thresholds\<close> tests nothing: it adds one to
  \<^verbatim>\<open>attempts\<close> and 0.2 to \<^verbatim>\<open>current\<close>. Nothing is said about a threshold of the loop
  against the presets.
\<close>

theorem loop_never_retests:
  "(\<forall>s'. search env m n = Inr (Bisected s') \<longrightarrow>
      probe_log (Bisected s') = map Fin PRESET_THRESHOLDS @ probed s' \<and>
      distinct (probed s') \<and> list_all quantized (probed s') \<and>
      set (probed s') = dom (tested_thresholds s')) \<and>
   distinct (map Fin PRESET_THRESHOLDS) \<and>
   (tested_thresholds s (round1 (current s)) \<noteq> None \<longrightarrow>
      loop_body env m n s =
        Inr (Next, s\<lparr>attempts := attempts s + 1, current := nudge (current s)\<rparr>))"
proof -
  have "probes_ok s'" if "search env m n = Inr (Bisected s')" for s'
  proof -
    from that obtain bracket t0 where "bisect env m n (initial_state bracket t0) = Inr s'"
      by (auto simp: search_presets Let_def split: if_splits sum.splits)
    then show ?thesis
      using initial_state_probes_ok by (rule bisect_probes_ok)
  qed
  moreover have "distinct (map Fin PRESET_THRESHOLDS)"
    by (simp add: PRESET_THRESHOLDS_def)
  moreover have "tested_thresholds s (round1 (current s)) \<noteq> None \<longrightarrow>
      loop_body env m n s =
        Inr (Next, s\<lparr>attempts := attempts s + 1, current := nudge (current s)\<rparr>)"
    by (simp add: loop_body_def Let_def)
  ultimately show ?thesis
    by (simp add: probes_ok_def)
qed

text \<open>
  The search of \<open>tone_env\<close> enters the loop, and its loop tests no threshold twice. An
  iteration at -20 with -20 already tested moves on to -19.8 without a test.
\<close>

theorem loop_never_retests_witness:
  "(\<exists>s'. search tone_env 1000 1000 = Inr (Bisected s') \<and> distinct (probed s') \<and>
         list_all quantized (probed s')) \<and>
   loop_body silent_env 1000 1000
     ((initial_state (Fin (- 100), Fin 0) (Fin (- 20)))
        \<lparr>tested_thresholds := [Fin (- 20) \<mapsto> No_chunks (Fin (- 20)) 0 0 0]\<rparr>) =
     Inr (Next, (initial_state (Fin (- 100), Fin 0) (Fin (- 20)))
        \<lparr>tested_thresholds := [Fin (- 20) \<mapsto> No_chunks (Fin (- 20)) 0 0 0],
         attempts := 1, current := Fin (- (99 / 5))\<rparr>)"
proof -
  let ?s = "(initial_state (Fin (- 100), Fin 0) (Fin (- 20)))
        \<lparr>tested_thresholds := [Fin (- 20) \<mapsto> No_chunks (Fin (- 20)) 0 0 0]\<rparr> :: nat search_state"
  obtain s' where found: "search tone_env 1000 1000 = Inr (Bisected s')"
    using tone_search by blast
  with loop_never_retests [of tone_env 1000 1000]
  have 1: "distinct (probed s') \<and> list_all quantized (probed s')"
    by blast
  have tested: "tested_thresholds ?s (round1 (current ?s)) \<noteq> None"
    by (simp add: initial_state_def py_round1_def)
  note skip = conjunct2 [OF conjunct2
      [OF loop_never_retests [where s = ?s and env = silent_env and m = 1000 and n = 1000]]]
  from skip tested
  have "loop_body silent_env 1000 1000 ?s =
      Inr (Next, ?s\<lparr>attempts := attempts ?s + 1, current := nudge (current ?s)\<rparr>)"
    by (rule mp)
  then have 2: "loop_body silent_env 1000 1000 ?s =
      Inr (Next, ?s\<lparr>attempts := 1, current := Fin (- (99 / 5))\<rparr>)"
    by (simp add: initial_state_def)
  from found 1 2 show ?thesis by blast
qed

text \<open>
  One search tests a threshold twice. For \<open>tone_env\<close> no preset is in the band and the
  initial threshold is -20; the loop, whose \<^verbatim>\<open>tested_thresholds\<close> starts empty, tests
  the presets -20, -60, -80 and -90 again.
\<close>

theorem no_reprobe_counterexample:
  "search_log tone_env 1000 1000 =
     map Fin PRESET_THRESHOLDS @
     [Fin (- 20), Fin (- 60), Fin (- 80), Fin (- 90), Fin (- 95), Fin (- (195 / 2)),
      Fin (- (494 / 5)), Fin (- (497 / 5))] \<and>
   \<not> distinct (search_log tone_env 1000 1000)"
  unfolding tone_log by (simp add: PRESET_THRESHOLDS_def)

subsection \<open>The final check\<close>

lemma accepted_examples:
  "accepted 1000 700 \<and> accepted 1000 1005 \<and> \<not> accepted 1000 1010 \<and>
   accepted 1000 500 \<and> accepted 1000 451 \<and> \<not> accepted 1000 450"
  by (simp add: accepted_def search_defs)

lemma final_check_not_None: "final_check p b t n k \<noteq> Inr None"
  by (auto simp: final_check_def Let_def)

lemma evaluate_empty_input: "\<not> is_Success (evaluate env m 0 t)"
  by (auto simp: evaluate_def test_threshold_def test_threshold_body_def try_except_def Let_def
      split: sum.splits)

lemma handle_result_no_success:
  "\<not> is_Success r \<Longrightarrow> handle_result mn mx t r s = (fl, s') \<Longrightarrow>
   best_threshold s' = best_threshold s"
  by (auto simp: handle_result_def range_check_def raise_low_def split: if_splits)

lemma loop_body_empty_input:
  "loop_body env m 0 s = Inr (fl, s') \<Longrightarrow> best_threshold s' = best_threshold s"
  by (auto simp: loop_body_def Let_def test_threshold_evaluate
      dest!: handle_result_no_success [OF evaluate_empty_input] split: if_splits)

lemma bisect_empty_input:
  "bisect env m n s = Inr s' \<Longrightarrow> n = 0 \<Longrightarrow> best_threshold s' = best_threshold s"
proof (induction env m n s rule: bisect.induct)
  case (1 env m n s)
  show ?case
  proof (cases "attempts s < MAX_SEARCH_ATTEMPTS")
    case False
    with "1.prems" show ?thesis by (simp add: bisect_resume)
  next
    case True
    obtain fl s1 where body: "loop_body env m n s = Inr (fl, s1)"
      using loop_body_total by blast
    with "1.prems"(2) have keep: "best_threshold s1 = best_threshold s"
      by (auto dest: loop_body_empty_input)
    show ?thesis
    proof (cases fl)
      case Break
      with True body "1.prems"(1) keep show ?thesis by (simp add: bisect_resume)
    next
      case Next
      with True body "1.prems"(1) have "bisect env m n s1 = Inr s'"
        by (simp add: bisect_resume)
      with True body Next "1.prems"(2) have "best_threshold s' = best_threshold s1"
        by (intro "1.IH" [of "(fl, s1)" fl s1]) simp_all
      with keep show ?thesis by simp
    qed
  qed
qed

lemma search_empty_input:
  assumes "search env m 0 = Inr found"
  shows "chosen found = None"
proof -
  have "preset_results env m 0 = []"
    by (simp add: preset_results_def evaluate_empty_input)
  then have "search env m 0 = map_sum id Bisected (bisect env m 0 (search_start env m 0))"
    by (intro search_bisected) (simp add: valid_presets_def)
  moreover obtain s' where s': "bisect env m 0 (search_start env m 0) = Inr s'"
    using bisect_iterations by blast
  ultimately have found: "found = Bisected s'"
    using assms by simp
  from s' have "best_threshold s' = best_threshold (search_start env m 0)"
    by (rule bisect_empty_input) simp
  then have "best_threshold s' = None"
    by (simp add: search_start_def initial_state_def)
  with found show ?thesis by simp
qed

text \<open>
  C2. When \<^verbatim>\<open>process_audio\<close> has chosen a threshold and its final export has written
  \<open>final_size\<close> bytes, it returns the flag \<open>accepted input_size final_size\<close>: success
  exactly in the ideal range and in the two tolerance cases, failure otherwise. In the
  ideal range the message is the one with the remark on the ideal range. The input
  file is not empty then: with an empty one no test succeeds and nothing is chosen.
\<close>

theorem final_decision:
  assumes "getsize env f = Inr input_size"
    and "search env m input_size = Inr found" and "chosen found = Some (t, a)"
    and "export_wav env a (fst (output_location env f outf)) = Inr final_size"
  shows "\<exists>msg. process_audio env True f m outf =
             Inr (Some (accepted input_size final_size, msg)) \<and>
           (min_acceptable_size input_size < final_size \<and> final_size < input_size \<longrightarrow>
              msg = Done_ideal (fst (output_location env f outf)) t input_size final_size)"
proof -
  have pos: "0 < input_size"
  proof (rule ccontr)
    assume "\<not> 0 < input_size"
    with assms(2) have "search env m 0 = Inr found" by simp
    then have "chosen found = None" by (rule search_empty_input)
    with assms(3) show False by simp
  qed
  then have "min_acceptable_size input_size < input_size"
    by (simp add: min_acceptable_size_eq)
  with assms pos show ?thesis
    by (auto simp: process_audio_def try_except_def process_audio_body_def final_check_def
        accepted_def Let_def MIN_SIZE_RATIO_def)
qed

text \<open>
  The recording of \<open>band_env\<close>: the preset -45 is chosen, the final export has 700 of
  1000 bytes, the call succeeds with the remark on the ideal range.
\<close>

theorem final_decision_witness:
  "accepted 1000 700 \<and>
   process_audio band_env True ''/in/talk.wav'' 1000 None =
     Inr (Some (True, Done_ideal ''/in/talk-desilenced.wav'' (Fin (- 45)) 1000 700))"
proof -
  have loc: "fst (output_location band_env ''/in/talk.wav'' None) = ''/in/talk-desilenced.wav''"
    by (simp add: output_location_def example_defs)
  have 1: "getsize band_env ''/in/talk.wav'' = Inr 1000"
    by (simp add: example_defs)
  have 2: "chosen (Preset_hit (Success (Fin (- 45)) 700 (7 / 10) 7 (replicate 7 (0::nat)))) =
      Some (Fin (- 45), replicate 7 0)"
    by simp
  have 3: "export_wav band_env (replicate 7 0)
      (fst (output_location band_env ''/in/talk.wav'' None)) = Inr 700"
    by (simp add: example_defs)
  have 4: "min_acceptable_size 1000 < 700 \<and> (700::nat) < 1000"
    by (simp add: search_defs)
  have 5: "accepted 1000 700"
    by (simp add: accepted_def search_defs)
  from final_decision [OF 1 band_search 2 3] 4 5 loc show ?thesis
    by auto
qed

subsection \<open>\<^verbatim>\<open>process_audio\<close> returns a pair\<close>

lemma readonly_search:
  "search readonly_env 1000 1000 =
     Inr (Preset_hit (Success (Fin (- 45)) 700 (7 / 10) 7 (replicate 7 0)))"
proof -
  have "preset_results readonly_env 1000 1000 = preset_results band_env 1000 1000"
    by (simp add: preset_results_def evaluate_def PRESET_THRESHOLDS_def search_defs example_defs)
  then show ?thesis
    unfolding search_def try_presets_eq preset_results_def [symmetric] band_presets
    by (simp add: valid_presets_def search_defs)
qed

text \<open>
  C9. \<^verbatim>\<open>process_audio\<close> always returns a pair of a flag and a message: it neither
  raises nor falls through its last \<^verbatim>\<open>elif\<close>. Without a loaded audio the pair is
  \<open>(False, Audio_not_loaded)\<close> whatever the environment; an exception of the body, such
  as one of \<^verbatim>\<open>os.path.getsize\<close>, comes back as \<open>(False, Processing_error e)\<close>.
\<close>

theorem process_audio_returns_pair:
  "(\<exists>ok msg. process_audio env loaded f m outf = Inr (Some (ok, msg))) \<and>
   (\<not> loaded \<longrightarrow> process_audio env loaded f m outf = Inr (Some (False, Audio_not_loaded))) \<and>
   (\<forall>e. loaded \<and> process_audio_body env f m outf = Inl e \<longrightarrow>
      process_audio env loaded f m outf = Inr (Some (False, Processing_error e))) \<and>
   (\<forall>e. loaded \<and> getsize env f = Inl e \<longrightarrow>
      process_audio env loaded f m outf = Inr (Some (False, Processing_error e)))"
proof -
  have body: "process_audio_body env f m outf \<noteq> Inr None"
    using final_check_not_None
    by (auto simp: process_audio_body_def Let_def split: sum.splits option.splits prod.splits)
  have 1: "\<exists>ok msg. process_audio env loaded f m outf = Inr (Some (ok, msg))"
  proof (cases "process_audio_body env f m outf")
    case (Inl e)
    then show ?thesis by (cases loaded) (auto simp: process_audio_def try_except_def)
  next
    case (Inr v)
    with body obtain ok msg where "v = Some (ok, msg)" by (cases v) auto
    with Inr show ?thesis by (cases loaded) (auto simp: process_audio_def try_except_def)
  qed
  have 2: "\<not> loaded \<longrightarrow> process_audio env loaded f m outf = Inr (Some (False, Audio_not_loaded))"
    by (simp add: process_audio_def)
  have 3: "\<forall>e. loaded \<and> process_audio_body env f m outf = Inl e \<longrightarrow>
      process_audio env loaded f m outf = Inr (Some (False, Processing_error e))"
    by (simp add: process_audio_def try_except_def)
  have 4: "\<forall>e. loaded \<and> getsize env f = Inl e \<longrightarrow>
      process_audio env loaded f m outf = Inr (Some (False, Processing_error e))"
    by (simp add: process_audio_def try_except_def process_audio_body_def)
  from 1 2 3 4 show ?thesis by blast
qed

text \<open>
  An unloaded audio, a missing input file, and an output directory that cannot be
  written at the final export.
\<close>

theorem process_audio_returns_pair_witness:
  "process_audio broken_env False ''/in/talk.wav'' 1000 None =
     Inr (Some (False, Audio_not_loaded)) \<and>
   process_audio broken_env True ''/in/talk.wav'' 1000 None =
     Inr (Some (False, Processing_error ''no such file'')) \<and>
   process_audio readonly_env True ''/in/talk.wav'' 1000 None =
     Inr (Some (False, Processing_error ''permission denied''))"
proof -
  note T = process_audio_returns_pair
  from T [of broken_env False "''/in/talk.wav''" 1000 None]
  have 1: "process_audio broken_env False ''/in/talk.wav'' 1000 None =
      Inr (Some (False, Audio_not_loaded))"
    by blast
  have "getsize broken_env ''/in/talk.wav'' = Inl ''no such file''"
    by (simp add: example_defs)
  with T [of broken_env True "''/in/talk.wav''" 1000 None]
  have 2: "process_audio broken_env True ''/in/talk.wav'' 1000 None =
      Inr (Some (False, Processing_error ''no such file''))"
    by blast
  have g: "getsize readonly_env ''/in/talk.wav'' = Inr 1000"
    by (simp add: example_defs)
  have loc: "output_location readonly_env ''/in/talk.wav'' None = (''/in/talk-desilenced.wav'', [])"
    by (simp add: output_location_def example_defs)
  have ex: "export_wav readonly_env (replicate 7 0) ''/in/talk-desilenced.wav'' =
      Inl ''permission denied''"
    by (simp add: example_defs)
  have "process_audio_body readonly_env ''/in/talk.wav'' 1000 None = Inl ''permission denied''"
    by (simp add: process_audio_body_def g loc ex readonly_search)
  with T [of readonly_env True "''/in/talk.wav''" 1000 None]
  have 3: "process_audio readonly_env True ''/in/talk.wav'' 1000 None =
      Inr (Some (False, Processing_error ''permission denied''))"
    by blast
  from 1 2 3 show ?thesis by blast
qed

subsection \<open>The output folder\<close>

text \<open>
  An empty string as \<^verbatim>\<open>output_folder\<close> is false as a condition: the path is the one
  for \<^verbatim>\<open>None\<close> and nothing is logged.
\<close>

lemma output_folder_empty:
  "output_location env f (Some []) = output_location env f None"
  by (simp add: output_location_def Let_def split: prod.splits)

text \<open>
  C10. A non-empty \<^verbatim>\<open>output_folder\<close> that is not an existing directory does not make
  the computation of the output path fail: one warning naming the folder is logged and
  the path is the input file's directory joined with the input file's name, the text
  \<^verbatim>\<open>-desilenced\<close> and its extension.
\<close>

theorem output_folder_fallback:
  assumes "outf = Some folder" and "folder \<noteq> []" and "\<not> isdir env folder"
  shows "output_location env f outf =
           (path_join env (fst (path_split env f))
              (fst (path_splitext env (snd (path_split env f))) @ ''-desilenced'' @
               snd (path_splitext env (snd (path_split env f)))),
            [Warning_invalid_output_folder folder])"
  using assms by (simp add: output_location_def Let_def split: prod.splits)

text \<open>
  The folder \<^verbatim>\<open>/nowhere\<close> does not exist: the output goes next to \<^verbatim>\<open>/in/talk.wav\<close>.
\<close>

theorem output_folder_fallback_witness:
  "\<not> isdir band_env ''/nowhere'' \<and>
   output_location band_env ''/in/talk.wav'' (Some ''/nowhere'') =
     (''/in/talk-desilenced.wav'', [Warning_invalid_output_folder ''/nowhere''])"
proof -
  have 1: "\<not> isdir band_env ''/nowhere''"
    by (simp add: example_defs)
  have 2: "''/nowhere'' \<noteq> []"
    by simp
  from output_folder_fallback [OF refl 2 1, of "''/in/talk.wav''"] 1 show ?thesis
    by (simp add: example_defs)
qed

subsection \<open>The choice of the parallel search\<close>






lemma select_arrivals_b:
  "select_best always_running 1000 arrivals_b =
     Best (Task_success (- 50) ''/tmp/silentcut_x/talk_thresh_-50_1700000000.41.temp.wav''
             760 (19 / 25) 8)"
  by (simp add: arrivals_b_def parallel_defs)




subsection \<open>Names of the scratch files\<close>








end
